theory Spec2Isabelle
  imports Complex_Main
begin

section \<open>Finance helpers of \<^verbatim>\<open>immoinvest_app.py\<close>\<close>

text \<open>
  Python's \<^verbatim>\<open>float\<close> is modelled by \<^typ>\<open>real\<close>: every operation is exact, so
  rounding and NaN are outside the model. Python's \<^verbatim>\<open>int\<close> is \<^typ>\<open>int\<close>.
  The exceptions are kept: a float division by zero, and a zero base raised to a negative
  power, raise \<^verbatim>\<open>ZeroDivisionError\<close>; the power of \<^verbatim>\<open>mensualite_credit\<close> raises
  \<^verbatim>\<open>OverflowError\<close> when its value is beyond the range of a double; a missing
  dictionary key raises \<^verbatim>\<open>KeyError\<close>; a list index out of range raises \<^verbatim>\<open>IndexError\<close>.
\<close>

datatype error = ZeroDivisionError | OverflowError | KeyError | IndexError

text \<open>
  A value that a double cannot hold: from \<open>2 ^ 1024 - 2 ^ 970\<close> on, half a unit in the last
  place above the largest double, the nearest double is infinity, and \<^verbatim>\<open>**\<close> raises
  \<^verbatim>\<open>OverflowError\<close> instead of returning it.
\<close>

definition float_overflow :: "real \<Rightarrow> bool" where
  "float_overflow x = (2 ^ 1024 - 2 ^ 970 \<le> \<bar>x\<bar>)"

text \<open>
  \<^verbatim>\<open>mensualite_credit(capital, taux_annuel, duree_annees)\<close>, lines 12-20. The literal
  \<^verbatim>\<open>1e-12\<close> is the rational \<open>1 / 10 ^ 12\<close>. In the last branch \<^verbatim>\<open>(1 + taux_mensuel) ** -n\<close>
  has a negative exponent (\<open>n > 0\<close> there): it raises \<^verbatim>\<open>ZeroDivisionError\<close> when the base
  is zero and \<^verbatim>\<open>OverflowError\<close> when the power is beyond the range of a double, which a
  base between -1 and 1 reaches at ordinary durations; then the quotient raises
  \<^verbatim>\<open>ZeroDivisionError\<close> when its denominator is zero.
\<close>

definition mensualite_credit :: "real \<Rightarrow> real \<Rightarrow> int \<Rightarrow> error + real" where
  "mensualite_credit capital taux_annuel duree_annees =
     (let n = duree_annees * 12;
          taux_mensuel = taux_annuel / 12
      in if n \<le> 0 then Inr 0
         else if \<bar>taux_mensuel\<bar> < 1 / 10 ^ 12 then Inr (capital / of_int n)
         else if 1 + taux_mensuel = 0 then Inl ZeroDivisionError
         else if float_overflow ((1 + taux_mensuel) powi (- n)) then Inl OverflowError
         else let d = 1 - (1 + taux_mensuel) powi (- n)
              in if d = 0 then Inl ZeroDivisionError
                 else Inr (capital * (taux_mensuel / d)))"

text \<open>One row of the amortization table; the fields are the columns of the DataFrame.\<close>

record amort_row =
  month_index :: int
  year :: int
  month :: int
  payment :: real
  interest :: real
  principal :: real
  balance :: real

text \<open>
  The body of the loop \<^verbatim>\<open>for i in range(1, n+1)\<close> of \<^verbatim>\<open>tableau_amortissement\<close>, lines 32-37.
  The loop state is the running balance and the rows appended so far.
\<close>

definition amort_step :: "real \<Rightarrow> real \<Rightarrow> int \<Rightarrow> real \<times> amort_row list \<Rightarrow> real \<times> amort_row list" where
  "amort_step m r i st =
     (let bal = fst st;
          rows = snd st;
          interest_i = bal * r;
          principal_i = max (m - interest_i) 0;
          bal' = max 0 (bal - principal_i);
          year_i = (i - 1) div 12 + 1;
          month_i = (i - 1) mod 12 + 1
      in (bal', rows @ [\<lparr>month_index = i, year = year_i, month = month_i, payment = m,
                         interest = interest_i, principal = principal_i, balance = bal'\<rparr>]))"

text \<open>
  \<^verbatim>\<open>tableau_amortissement(capital, taux_annuel, duree_annees)\<close>, lines 22-39. The DataFrame
  is the list of its rows; the empty DataFrame is the empty list. The call of
  \<^verbatim>\<open>mensualite_credit\<close> comes after the test \<open>n \<le> 0\<close>, and its exception propagates.
\<close>

definition tableau_amortissement :: "real \<Rightarrow> real \<Rightarrow> int \<Rightarrow> error + amort_row list" where
  "tableau_amortissement capital taux_annuel duree_annees =
     (let n = duree_annees * 12
      in if n \<le> 0 then Inr []
         else let r = taux_annuel / 12
              in case mensualite_credit capital taux_annuel duree_annees of
                   Inl e \<Rightarrow> Inl e
                 | Inr m \<Rightarrow> Inr (snd (fold (amort_step m r) [1..n] (capital, []))))"

section \<open>The schedule as the specification describes it\<close>

text \<open>
  The recurrence of the specification, written by month number rather than as a loop:
  \<open>spec_balance m r P k\<close> is the balance after \<open>k\<close> months starting from \<open>P\<close>, with
  \<open>principal_paid = max (payment - interest) 0\<close> and \<open>balance = max 0 (balance - principal_paid)\<close>;
  \<open>spec_row m r P i\<close> is the row of month \<open>i\<close>, with \<open>year = (i-1)//12 + 1\<close> and
  \<open>monthInYear = (i-1)%12 + 1\<close>. These two are compared with \<open>tableau_amortissement\<close>.
\<close>

fun spec_balance :: "real \<Rightarrow> real \<Rightarrow> real \<Rightarrow> nat \<Rightarrow> real" where
  "spec_balance m r P 0 = P"
| "spec_balance m r P (Suc k) =
     max 0 (spec_balance m r P k - max (m - spec_balance m r P k * r) 0)"

definition spec_row :: "real \<Rightarrow> real \<Rightarrow> real \<Rightarrow> nat \<Rightarrow> amort_row" where
  "spec_row m r P i =
     \<lparr>month_index = int i, year = (int i - 1) div 12 + 1, month = (int i - 1) mod 12 + 1,
      payment = m,
      interest = spec_balance m r P (i - 1) * r,
      principal = max (m - spec_balance m r P (i - 1) * r) 0,
      balance = spec_balance m r P i\<rparr>"

section \<open>Scenario hypotheses, properties and the projection\<close>

text \<open>The class \<^verbatim>\<open>HypScenario\<close>, lines 45-60: one field per attribute.\<close>

record HypScenario =
  name :: string
  revalo_loyers :: real
  idx_assurance :: real
  idx_copro :: real
  idx_taxe :: real
  idx_assu_empr :: real
  idx_autres :: real
  tmi :: real
  ps :: real
  duree_projection :: int

text \<open>
  A property is the dictionary built by \<^verbatim>\<open>add_bien\<close>, lines 189-205: its keys are fixed, so
  it is a record; \<^verbatim>\<open>charges\<close> stays a dictionary, read with \<^verbatim>\<open>.get(key, 0.0)\<close>. The
  amortization table may be \<^verbatim>\<open>None\<close> for \<^verbatim>\<open>_project_with_scenario\<close> (line 300).
\<close>

record bien =
  nom :: string
  prix :: real
  emprunt :: real
  duree :: int
  taux :: real
  loyer :: real
  charges :: "string \<rightharpoonup> real"
  mensualite :: real
  amort :: "amort_row list option"

text \<open>\<^verbatim>\<open>d.get(k, default)\<close> on a dictionary.\<close>

definition dict_get :: "('k \<rightharpoonup> 'v) \<Rightarrow> 'k \<Rightarrow> 'v \<Rightarrow> 'v" where
  "dict_get d k dflt = (case d k of None \<Rightarrow> dflt | Some v \<Rightarrow> v)"

text \<open>
  Line 300: \<^verbatim>\<open>df_am.groupby("year")["interest"].sum().to_dict() if df_am is not None else {}\<close>.
  The keys are the years that occur in the table; the value of a year is the sum of the
  interest of its rows.
\<close>

definition interets_par_an :: "amort_row list option \<Rightarrow> (int \<rightharpoonup> real)" where
  "interets_par_an df_am =
     (case df_am of
        None \<Rightarrow> Map.empty
      | Some rows \<Rightarrow>
          (\<lambda>y. if y \<in> set (map year rows)
               then Some (sum_list (map interest (filter (\<lambda>row. year row = y) rows)))
               else None))"

text \<open>
  The expression \<^verbatim>\<open>base * ((1 + idx) ** (year - 1))\<close> of lines 314-319. The loop only
  evaluates it at \<open>year \<ge> 1\<close>, where the exponent is not negative, so no zero base is
  raised to a negative power; the compounded amounts are taken inside the range of a double.
\<close>

definition indexe :: "real \<Rightarrow> real \<Rightarrow> int \<Rightarrow> real" where
  "indexe base idx yr = base * ((1 + idx) powi (yr - 1))"

text \<open>
  One year of one property, lines 303-328: the pair \<open>(revenu_imposable, cashflow)\<close>. The
  bases of lines 303-310 do not change in the loop and are read here.
\<close>

definition projection_annee :: "HypScenario \<Rightarrow> bien \<Rightarrow> (int \<rightharpoonup> real) \<Rightarrow> int \<Rightarrow> real \<times> real" where
  "projection_annee hyp b ipa yr =
     (let loy_base = loyer b;
          ass_base = dict_get (charges b) ''assurance'' 0;
          copro_base = dict_get (charges b) ''copro'' 0;
          taxe_base = dict_get (charges b) ''taxe_fonciere'' 0;
          assu_empr_base = dict_get (charges b) ''assurance_emprunteur'' 0;
          autres_base = dict_get (charges b) ''autres'' 0;
          mensualite_annuelle = mensualite b * 12;
          loy = indexe loy_base (revalo_loyers hyp) yr;
          ass = indexe ass_base (idx_assurance hyp) yr;
          copro = indexe copro_base (idx_copro hyp) yr;
          taxe = indexe taxe_base (idx_taxe hyp) yr;
          assu_empr = indexe assu_empr_base (idx_assu_empr hyp) yr;
          autres = indexe autres_base (idx_autres hyp) yr;
          charges_tot = ass + copro + assu_empr + autres;
          annuite = (if yr \<le> duree b then mensualite_annuelle else 0);
          interets = (if yr \<le> duree b then dict_get ipa yr 0 else 0);
          revenu_imposable = loy - charges_tot - taxe - interets;
          cashflow = loy - charges_tot - taxe - annuite
      in (revenu_imposable, cashflow))"

text \<open>
  The result dictionaries map a property name to the list of its yearly values.
  \<^verbatim>\<open>d[k].append(v)\<close> raises \<^verbatim>\<open>KeyError\<close> when \<open>k\<close> is not a key.
\<close>

type_synonym series = "string \<rightharpoonup> real list"

definition dict_append :: "series \<Rightarrow> string \<Rightarrow> real \<Rightarrow> error + series" where
  "dict_append d k v = (case d k of None \<Rightarrow> Inl KeyError | Some xs \<Rightarrow> Inr (d(k \<mapsto> xs @ [v])))"

text \<open>A \<^verbatim>\<open>for\<close> loop whose body may raise: the first exception ends the loop.\<close>

fun fold_err :: "('a \<Rightarrow> 's \<Rightarrow> error + 's) \<Rightarrow> 'a list \<Rightarrow> 's \<Rightarrow> error + 's" where
  "fold_err f [] s = Inr s"
| "fold_err f (x # xs) s = (case f x s of Inl e \<Rightarrow> Inl e | Inr s' \<Rightarrow> fold_err f xs s')"

text \<open>
  The body of \<^verbatim>\<open>for year in annees\<close>, lines 312-329. The state is the pair
  \<open>(resultats_cashflow, resultats_imposable)\<close>; the taxable income is appended first.
\<close>

definition annee_step :: "HypScenario \<Rightarrow> bien \<Rightarrow> (int \<rightharpoonup> real) \<Rightarrow> int \<Rightarrow> series \<times> series \<Rightarrow> error + series \<times> series" where
  "annee_step hyp b ipa yr st =
     (let resultats_cashflow = fst st;
          resultats_imposable = snd st;
          revenu_imposable = fst (projection_annee hyp b ipa yr);
          cashflow = snd (projection_annee hyp b ipa yr)
      in case dict_append resultats_imposable (nom b) revenu_imposable of
           Inl e \<Rightarrow> Inl e
         | Inr resultats_imposable' \<Rightarrow>
             (case dict_append resultats_cashflow (nom b) cashflow of
                Inl e \<Rightarrow> Inl e
              | Inr resultats_cashflow' \<Rightarrow> Inr (resultats_cashflow', resultats_imposable')))"

text \<open>The body of \<^verbatim>\<open>for b in self.biens\<close>, lines 298-329.\<close>

definition bien_step :: "HypScenario \<Rightarrow> int list \<Rightarrow> bien \<Rightarrow> series \<times> series \<Rightarrow> error + series \<times> series" where
  "bien_step hyp ans b st = fold_err (annee_step hyp b (interets_par_an (amort b))) ans st"

text \<open>
  \<^verbatim>\<open>d[k][i]\<close> with \<open>i \<ge> 0\<close>: \<^verbatim>\<open>KeyError\<close> for a missing key, \<^verbatim>\<open>IndexError\<close> past the
  end of the list.
\<close>

definition lookup_serie :: "series \<Rightarrow> string \<Rightarrow> nat \<Rightarrow> error + real" where
  "lookup_serie d k i =
     (case d k of
        None \<Rightarrow> Inl KeyError
      | Some xs \<Rightarrow> if i < length xs then Inr (xs ! i) else Inl IndexError)"

text \<open>
  Python's \<^verbatim>\<open>sum\<close> over a generator: the items are added from the left, starting
  from 0, and the first item that raises ends the sum.
\<close>

fun sum_from :: "real \<Rightarrow> (error + real) list \<Rightarrow> error + real" where
  "sum_from acc [] = Inr acc"
| "sum_from acc (x # xs) = (case x of Inl e \<Rightarrow> Inl e | Inr v \<Rightarrow> sum_from (acc + v) xs)"

text \<open>
  The body of \<^verbatim>\<open>for i,_ in enumerate(annees)\<close>, lines 332-334. The state is the pair of
  arrays \<open>(total_cashflow, total_imposable)\<close>; \<open>i\<close> is always inside the arrays.
\<close>

definition agreg_step :: "bien list \<Rightarrow> series \<Rightarrow> series \<Rightarrow> nat \<Rightarrow> real list \<times> real list \<Rightarrow> error + real list \<times> real list" where
  "agreg_step bs resultats_cashflow resultats_imposable i tot =
     (case sum_from 0 (map (\<lambda>b. lookup_serie resultats_cashflow (nom b) i) bs) of
        Inl e \<Rightarrow> Inl e
      | Inr s_cf \<Rightarrow>
          (case sum_from 0 (map (\<lambda>b. lookup_serie resultats_imposable (nom b) i) bs) of
             Inl e \<Rightarrow> Inl e
           | Inr s_imp \<Rightarrow> Inr ((fst tot)[i := s_cf], (snd tot)[i := s_imp])))"

text \<open>
  The dictionary returned by \<^verbatim>\<open>_project_with_scenario\<close>, lines 341-350. The key
  \<^verbatim>\<open>"ps"\<close> is the field \<open>ps_out\<close>, since \<open>ps\<close> is the rate of the scenario.
\<close>

record projection =
  annees :: "int list"
  resultats_cashflow :: series
  resultats_imposable :: series
  total_cashflow :: "real list"
  total_imposable :: "real list"
  impots :: "real list"
  ps_out :: "real list"
  cf_after_tax :: "real list"

text \<open>
  \<^verbatim>\<open>_project_with_scenario(self, hyp)\<close>, lines 291-350, as a function of \<^verbatim>\<open>self.biens\<close>
  and \<^verbatim>\<open>hyp\<close>. The numpy arrays are lists of length \<open>len(annees)\<close>; the three arrays of
  lines 337-339 are computed index by index.
\<close>

definition project_with_scenario :: "bien list \<Rightarrow> HypScenario \<Rightarrow> error + projection" where
  "project_with_scenario bs hyp =
     (let ans = [1..duree_projection hyp];
          rc0 = map_of (map (\<lambda>b. (nom b, [])) bs);
          ri0 = map_of (map (\<lambda>b. (nom b, [])) bs);
          tc0 = replicate (length ans) 0;
          ti0 = replicate (length ans) 0
      in case fold_err (bien_step hyp ans) bs (rc0, ri0) of
           Inl e \<Rightarrow> Inl e
         | Inr res \<Rightarrow>
             (case fold_err (agreg_step bs (fst res) (snd res)) [0..<length ans] (tc0, ti0) of
                Inl e \<Rightarrow> Inl e
              | Inr tot \<Rightarrow>
                  (let tc = fst tot;
                       ti = snd tot;
                       imp = map (\<lambda>i. max (ti ! i) 0 * tmi hyp) [0..<length ans];
                       psl = map (\<lambda>i. max (ti ! i) 0 * ps hyp) [0..<length ans];
                       cat = map (\<lambda>i. tc ! i - imp ! i - psl ! i) [0..<length ans]
                   in Inr \<lparr>annees = ans, resultats_cashflow = fst res,
                           resultats_imposable = snd res, total_cashflow = tc,
                           total_imposable = ti, impots = imp, ps_out = psl,
                           cf_after_tax = cat\<rparr>)))"

text \<open>
  \<^verbatim>\<open>add_bien\<close>'s \<^verbatim>\<open>save\<close>, lines 189-205, after the form has been parsed: the payment
  and the table are derived from the loan; an exception leaves no property.
\<close>

definition make_bien :: "string \<Rightarrow> real \<Rightarrow> real \<Rightarrow> int \<Rightarrow> real \<Rightarrow> real \<Rightarrow> (string \<rightharpoonup> real) \<Rightarrow> error + bien" where
  "make_bien nm px emp dur tx loy ch =
     (case mensualite_credit emp tx dur of
        Inl e \<Rightarrow> Inl e
      | Inr m \<Rightarrow>
          (case tableau_amortissement emp tx dur of
             Inl e \<Rightarrow> Inl e
           | Inr rows \<Rightarrow>
               Inr \<lparr>nom = nm, prix = px, emprunt = emp, duree = dur, taux = tx, loyer = loy,
                     charges = ch, mensualite = m, amort = Some rows\<rparr>))"


section \<open>Per-property series and the specification's formulas\<close>

text \<open>
  The values that the loop of lines 312-329 appends for one property, year after year:
  the property's own cash-flow series and taxable-income series.
\<close>

definition serie_cashflow :: "HypScenario \<Rightarrow> bien \<Rightarrow> real list" where
  "serie_cashflow hyp b =
     map (\<lambda>y. snd (projection_annee hyp b (interets_par_an (amort b)) y)) [1..duree_projection hyp]"

definition serie_imposable :: "HypScenario \<Rightarrow> bien \<Rightarrow> real list" where
  "serie_imposable hyp b =
     map (\<lambda>y. fst (projection_annee hyp b (interets_par_an (amort b)) y)) [1..duree_projection hyp]"

text \<open>The first property of the list that bears the name of \<open>b\<close> (\<open>b\<close> itself if none does).\<close>

definition premier_du_nom :: "bien list \<Rightarrow> bien \<Rightarrow> bien" where
  "premier_du_nom bs b = (case find (\<lambda>b'. nom b' = nom b) bs of Some b0 \<Rightarrow> b0 | None \<Rightarrow> b)"

text \<open>The rows of a property's table; no table is no row.\<close>

definition amort_rows :: "bien \<Rightarrow> amort_row list" where
  "amort_rows b = (case amort b of None \<Rightarrow> [] | Some rows \<Rightarrow> rows)"

text \<open>
  Section 4.2 of the specification, in its words: a base amount compounded at its own
  rate; the sum of the four charge lines; the annual debt service and the interest of
  year \<open>y\<close>; taxable income and cash flow.
\<close>

definition spec_compound :: "real \<Rightarrow> real \<Rightarrow> int \<Rightarrow> real" where
  "spec_compound base idx y = base * (1 + idx) ^ nat (y - 1)"

definition spec_charges_total :: "HypScenario \<Rightarrow> bien \<Rightarrow> int \<Rightarrow> real" where
  "spec_charges_total hyp b y =
     spec_compound (dict_get (charges b) ''assurance'' 0) (idx_assurance hyp) y +
     spec_compound (dict_get (charges b) ''copro'' 0) (idx_copro hyp) y +
     spec_compound (dict_get (charges b) ''assurance_emprunteur'' 0) (idx_assu_empr hyp) y +
     spec_compound (dict_get (charges b) ''autres'' 0) (idx_autres hyp) y"

definition spec_annuity :: "bien \<Rightarrow> int \<Rightarrow> real" where
  "spec_annuity b y = (if y \<le> duree b then mensualite b * 12 else 0)"

definition spec_interest :: "bien \<Rightarrow> int \<Rightarrow> real" where
  "spec_interest b y =
     (if y \<le> duree b
      then sum_list (map interest (filter (\<lambda>row. year row = y) (amort_rows b)))
      else 0)"

definition spec_taxable_income :: "HypScenario \<Rightarrow> bien \<Rightarrow> int \<Rightarrow> real" where
  "spec_taxable_income hyp b y =
     spec_compound (loyer b) (revalo_loyers hyp) y - spec_charges_total hyp b y -
     spec_compound (dict_get (charges b) ''taxe_fonciere'' 0) (idx_taxe hyp) y -
     spec_interest b y"

definition spec_cash_flow :: "HypScenario \<Rightarrow> bien \<Rightarrow> int \<Rightarrow> real" where
  "spec_cash_flow hyp b y =
     spec_compound (loyer b) (revalo_loyers hyp) y - spec_charges_total hyp b y -
     spec_compound (dict_get (charges b) ''taxe_fonciere'' 0) (idx_taxe hyp) y -
     spec_annuity b y"

section \<open>Example data\<close>

text \<open>The scenario \<^verbatim>\<open>HypScenario("A")\<close> with its default rates and a horizon of two years.\<close>

definition hyp_exemple :: HypScenario where
  "hyp_exemple =
     \<lparr>name = ''A'', revalo_loyers = 15 / 1000, idx_assurance = 1 / 100, idx_copro = 1 / 100,
      idx_taxe = 12 / 1000, idx_assu_empr = 1 / 100, idx_autres = 1 / 100, tmi = 3 / 10,
      ps = 172 / 1000, duree_projection = 2\<rparr>"

text \<open>
  The property that \<^verbatim>\<open>add_bien\<close> stores for a form holding a name, an annual rent and a
  property tax, every other field left empty: no loan, so a payment of 0 and an empty table.
\<close>

definition charges_exemple :: "real \<Rightarrow> (string \<rightharpoonup> real)" where
  "charges_exemple taxe =
     [''assurance'' \<mapsto> 0, ''taxe_fonciere'' \<mapsto> taxe, ''copro'' \<mapsto> 0,
      ''assurance_emprunteur'' \<mapsto> 0, ''autres'' \<mapsto> 0]"

definition bien_sans_credit :: "string \<Rightarrow> real \<Rightarrow> real \<Rightarrow> bien" where
  "bien_sans_credit nm loy taxe =
     \<lparr>nom = nm, prix = 0, emprunt = 0, duree = 0, taux = 0, loyer = loy,
      charges = charges_exemple taxe, mensualite = 0, amort = Some []\<rparr>"

section \<open>Amortization: proofs\<close>

lemma upto_1_int: "[1..int k] = map int [1..<Suc k]"
proof (induction k)
  case 0
  show ?case by simp
next
  case (Suc k)
  have "[1..int (Suc k)] = [1..int k] @ [int (Suc k)]"
    using upto_rec2 [of 1 "int (Suc k)"] by simp
  with Suc show ?case by simp
qed

lemma amort_step_spec:
  "amort_step m r (int (Suc j)) (spec_balance m r P j, rows) =
     (spec_balance m r P (Suc j), rows @ [spec_row m r P (Suc j)])"
  by (simp add: amort_step_def spec_row_def Let_def)

lemma fold_amort_step:
  "fold (amort_step m r) (map int [Suc j..<Suc (j + k)]) (spec_balance m r P j, rows) =
     (spec_balance m r P (j + k), rows @ map (spec_row m r P) [Suc j..<Suc (j + k)])"
proof (induction k)
  case 0
  show ?case by simp
next
  case (Suc k)
  have "[Suc j..<Suc (j + Suc k)] = [Suc j..<Suc (j + k)] @ [Suc (j + k)]"
    by simp
  then show ?case
    using Suc amort_step_spec [of m r "j + k" P] by (simp del: upt_Suc spec_balance.simps)
qed

lemma tableau_rows:
  assumes "0 < duree_annees * 12" and "mensualite_credit capital taux_annuel duree_annees = Inr m"
  shows "tableau_amortissement capital taux_annuel duree_annees =
           Inr (map (spec_row m (taux_annuel / 12) capital) [1..<Suc (nat (duree_annees * 12))])"
proof -
  have "[1..duree_annees * 12] = map int [1..<Suc (nat (duree_annees * 12))]"
    using upto_1_int [of "nat (duree_annees * 12)"] assms(1) by simp
  moreover have "fold (amort_step m (taux_annuel / 12)) (map int [1..<Suc (nat (duree_annees * 12))]) (capital, []) =
      (spec_balance m (taux_annuel / 12) capital (nat (duree_annees * 12)),
       map (spec_row m (taux_annuel / 12) capital) [1..<Suc (nat (duree_annees * 12))])"
    using fold_amort_step [of m "taux_annuel / 12" 0 "nat (duree_annees * 12)" capital "[]"] by simp
  ultimately show ?thesis
    using assms by (simp add: tableau_amortissement_def Let_def)
qed


lemma float_overflow_one: "\<not> float_overflow 1"
proof -
  have "(2::real) ^ 970 * 2 \<le> 2 ^ 970 * 2 ^ 54"
    by (intro mult_left_mono) simp_all
  then have "(1::real) + 2 ^ 970 < 2 ^ 1024"
    by (simp add: power_add [symmetric])
  then show ?thesis
    by (simp add: float_overflow_def)
qed

subsection \<open>C1: the monthly payment\<close>

text \<open>
  Claim C1, as amended. \<open>mensualite_credit\<close> returns 0 when \<open>n = duree_annees * 12 \<le> 0\<close>;
  returns \<open>capital / n\<close> when \<open>\<bar>taux_annuel / 12\<bar> < 1e-12\<close>; and otherwise, with
  \<open>r = taux_annuel / 12\<close>, returns \<open>capital * r / (1 - (1 + r) ^ -n)\<close> provided that
  \<open>1 + r \<noteq> 0\<close>, that \<open>(1 + r) ^ -n\<close> is inside the range of a double, and that
  \<open>(1 + r) ^ -n \<noteq> 1\<close>. In the remaining cases it raises: \<open>OverflowError\<close> when \<open>1 + r \<noteq> 0\<close>
  and \<open>(1 + r) ^ -n\<close> is beyond the range of a double, and \<open>ZeroDivisionError\<close> when
  \<open>1 + r = 0\<close> or \<open>(1 + r) ^ -n = 1\<close> (monthly rates -1 and -2, \<open>n\<close> being a multiple of 12).
\<close>

theorem C1_mensualite_credit_branches:
  "(duree_annees * 12 \<le> 0 \<longrightarrow> mensualite_credit capital taux_annuel duree_annees = Inr 0) \<and>
   (0 < duree_annees * 12 \<and> \<bar>taux_annuel / 12\<bar> < 1 / 10 ^ 12 \<longrightarrow>
      mensualite_credit capital taux_annuel duree_annees =
        Inr (capital / of_int (duree_annees * 12))) \<and>
   (0 < duree_annees * 12 \<and> \<not> \<bar>taux_annuel / 12\<bar> < 1 / 10 ^ 12 \<and>
    1 + taux_annuel / 12 \<noteq> 0 \<and>
    \<not> float_overflow ((1 + taux_annuel / 12) powi (- (duree_annees * 12))) \<and>
    (1 + taux_annuel / 12) powi (- (duree_annees * 12)) \<noteq> 1 \<longrightarrow>
      mensualite_credit capital taux_annuel duree_annees =
        Inr (capital * (taux_annuel / 12) /
               (1 - (1 + taux_annuel / 12) powi (- (duree_annees * 12))))) \<and>
   (0 < duree_annees * 12 \<and> \<not> \<bar>taux_annuel / 12\<bar> < 1 / 10 ^ 12 \<and>
    1 + taux_annuel / 12 \<noteq> 0 \<and>
    float_overflow ((1 + taux_annuel / 12) powi (- (duree_annees * 12))) \<longrightarrow>
      mensualite_credit capital taux_annuel duree_annees = Inl OverflowError) \<and>
   (0 < duree_annees * 12 \<and> \<not> \<bar>taux_annuel / 12\<bar> < 1 / 10 ^ 12 \<and>
    (1 + taux_annuel / 12 = 0 \<or> (1 + taux_annuel / 12) powi (- (duree_annees * 12)) = 1) \<longrightarrow>
      mensualite_credit capital taux_annuel duree_annees = Inl ZeroDivisionError)"
  using float_overflow_one by (auto simp: mensualite_credit_def Let_def)

text \<open>The five branches at concrete loans: no duration; zero rate; a monthly rate of 100 %;
  a monthly rate of \<open>-1 + 1/1024\<close> over nine years, where the power is \<open>2 ^ 1080\<close>; and a
  monthly rate of -100 %.\<close>

theorem C1_mensualite_credit_branches_witness:
  "mensualite_credit 1200 (3 / 100) 0 = Inr 0 \<and>
   mensualite_credit 1200 0 1 = Inr 100 \<and>
   mensualite_credit 4095 12 1 = Inr 4096 \<and>
   mensualite_credit 1000 (- 12 + 12 / 1024) 9 = Inl OverflowError \<and>
   mensualite_credit 4095 (- 12) 1 = Inl ZeroDivisionError"
proof -
  have small: "\<not> float_overflow ((1 + 12 / 12) powi (- (1 * 12)))"
    by (simp add: float_overflow_def power_int_def power_divide)
  have big: "float_overflow ((1 + (- 12 + 12 / 1024) / 12) powi (- (9 * 12)))"
    by (simp add: float_overflow_def power_int_def)
  show ?thesis
    using small big
      C1_mensualite_credit_branches [of 0 1200 "3 / 100"]
      C1_mensualite_credit_branches [of 1 1200 0]
      C1_mensualite_credit_branches [of 1 4095 12]
      C1_mensualite_credit_branches [of 9 1000 "- 12 + 12 / 1024"]
      C1_mensualite_credit_branches [of 1 4095 "- 12"]
    by (simp add: power_int_def power_divide)
qed

text \<open>
  Claim C1 as stated (the formula's value is returned for every rate outside the epsilon
  band) fails at an annual rate of -24, one year: the monthly rate is -2, \<open>(1 + r) ^ -12 = 1\<close>,
  and the quotient raises.
\<close>

theorem C1_annuity_formula_raises:
  "\<not> (1::int) * 12 \<le> 0 \<and> \<not> \<bar>(- 24 :: real) / 12\<bar> < 1 / 10 ^ 12 \<and>
   mensualite_credit 1 (- 24) 1 = Inl ZeroDivisionError"
  using float_overflow_one by (simp add: mensualite_credit_def power_int_def)

subsection \<open>C2: the amortization table\<close>

text \<open>
  Claim C2, as amended. \<open>tableau_amortissement\<close> returns the empty table when
  \<open>n = duree_annees * 12 \<le> 0\<close>. Otherwise it raises what \<open>mensualite_credit\<close> raises, and
  when \<open>mensualite_credit\<close> returns a payment \<open>m\<close> it returns exactly \<open>n\<close> rows, row \<open>i\<close>
  (counted from 1) being the row of the specification's recurrence started at
  \<open>balance = capital\<close>: \<open>interest = balance * r\<close>, \<open>principal = max (m - interest) 0\<close>,
  \<open>balance = max 0 (balance - principal)\<close>, \<open>year = (i-1) div 12 + 1\<close>,
  \<open>month = (i-1) mod 12 + 1\<close>.
\<close>

theorem C2_tableau_amortissement_rows:
  "(duree_annees * 12 \<le> 0 \<longrightarrow> tableau_amortissement capital taux_annuel duree_annees = Inr []) \<and>
   (0 < duree_annees * 12 \<longrightarrow>
      (\<forall>e. mensualite_credit capital taux_annuel duree_annees = Inl e \<longrightarrow>
           tableau_amortissement capital taux_annuel duree_annees = Inl e) \<and>
      (\<forall>m. mensualite_credit capital taux_annuel duree_annees = Inr m \<longrightarrow>
           (\<exists>rows. tableau_amortissement capital taux_annuel duree_annees = Inr rows \<and>
              length rows = nat (duree_annees * 12) \<and>
              (\<forall>i < length rows.
                 rows ! i = spec_row m (taux_annuel / 12) capital (Suc i)))))"
proof (intro conjI impI allI)
  assume "duree_annees * 12 \<le> 0"
  then show "tableau_amortissement capital taux_annuel duree_annees = Inr []"
    by (simp add: tableau_amortissement_def)
next
  fix e
  assume "0 < duree_annees * 12"
    and "mensualite_credit capital taux_annuel duree_annees = Inl e"
  then show "tableau_amortissement capital taux_annuel duree_annees = Inl e"
    by (simp add: tableau_amortissement_def)
next
  fix m
  assume n: "0 < duree_annees * 12"
    and m: "mensualite_credit capital taux_annuel duree_annees = Inr m"
  let ?rows = "map (spec_row m (taux_annuel / 12) capital) [1..<Suc (nat (duree_annees * 12))]"
  have "tableau_amortissement capital taux_annuel duree_annees = Inr ?rows"
    using tableau_rows [OF n m] .
  moreover have "length ?rows = nat (duree_annees * 12)"
    by simp
  moreover have "\<forall>i < length ?rows. ?rows ! i = spec_row m (taux_annuel / 12) capital (Suc i)"
    by (simp del: upt_Suc)
  ultimately show "\<exists>rows. tableau_amortissement capital taux_annuel duree_annees = Inr rows \<and>
      length rows = nat (duree_annees * 12) \<and>
      (\<forall>i < length rows. rows ! i = spec_row m (taux_annuel / 12) capital (Suc i))"
    by blast
qed

text \<open>A one-month-per-row table without a payment: the second conjunct at a zero rate, the
  first at a zero duration.\<close>

theorem C2_tableau_amortissement_rows_witness:
  "tableau_amortissement 1200 0 0 = Inr [] \<and>
   (0 < (1::int) * 12 \<and> mensualite_credit 1200 0 1 = Inr 100 \<and>
    (\<exists>rows. tableau_amortissement 1200 0 1 = Inr rows \<and> length rows = 12 \<and>
       (\<forall>i < length rows. rows ! i = spec_row 100 (0 / 12) 1200 (Suc i))))"
proof -
  have m: "mensualite_credit 1200 0 1 = Inr 100"
    by (simp add: mensualite_credit_def)
  show ?thesis
    using m C2_tableau_amortissement_rows [of 0 1200 0]
      C2_tableau_amortissement_rows [of 1 1200 0]
    by simp
qed

text \<open>
  Claim C2 as stated (exactly \<open>n\<close> rows for every input with \<open>n > 0\<close>) fails at an annual
  rate of -24, one year: the payment raises and no table is returned.
\<close>

theorem C2_tableau_amortissement_raises:
  "\<not> (1::int) * 12 \<le> 0 \<and> tableau_amortissement 1 (- 24) 1 = Inl ZeroDivisionError"
  using float_overflow_one
  by (simp add: tableau_amortissement_def mensualite_credit_def power_int_def)

subsection \<open>C8: zero rate\<close>

text \<open>
  Claim C8. With \<open>taux_annuel = 0\<close> and \<open>duree_annees > 0\<close>, \<open>mensualite_credit\<close> returns
  exactly \<open>capital / (duree_annees * 12)\<close>, and \<open>tableau_amortissement\<close> returns a table of
  \<open>duree_annees * 12\<close> rows whose \<open>interest\<close> is 0 in every row.
\<close>

theorem C8_taux_zero:
  assumes "0 < duree_annees"
  shows "mensualite_credit capital 0 duree_annees = Inr (capital / of_int (duree_annees * 12)) \<and>
         (\<exists>rows. tableau_amortissement capital 0 duree_annees = Inr rows \<and>
            length rows = nat (duree_annees * 12) \<and>
            (\<forall>row \<in> set rows. interest row = 0))"
proof -
  let ?m = "capital / of_int (duree_annees * 12)"
  let ?rows = "map (spec_row ?m (0 / 12) capital) [1..<Suc (nat (duree_annees * 12))]"
  have m: "mensualite_credit capital 0 duree_annees = Inr ?m"
    using assms by (simp add: mensualite_credit_def)
  have n: "0 < duree_annees * 12"
    using assms by simp
  have "tableau_amortissement capital 0 duree_annees = Inr ?rows"
    using tableau_rows [OF n m] .
  moreover have "length ?rows = nat (duree_annees * 12)"
    by simp
  moreover have "\<forall>row \<in> set ?rows. interest row = 0"
    by (simp add: spec_row_def del: upt_Suc)
  ultimately show ?thesis
    using m by blast
qed

text \<open>A loan of 1200 at rate 0 over one year: twelve payments of 100, no interest.\<close>

theorem C8_taux_zero_witness:
  "0 < (1::int) \<and> mensualite_credit 1200 0 1 = Inr 100 \<and>
   (\<exists>rows. tableau_amortissement 1200 0 1 = Inr rows \<and> length rows = 12 \<and>
      (\<forall>row \<in> set rows. interest row = 0))"
  using C8_taux_zero [of 1 1200] by simp

section \<open>Projection: proofs\<close>

lemma fold_err_append:
  "fold_err f (xs @ ys) s = (case fold_err f xs s of Inl e \<Rightarrow> Inl e | Inr s' \<Rightarrow> fold_err f ys s')"
  by (induction xs arbitrary: s) (auto split: sum.splits)

lemma fold_annee_step:
  assumes "rc (nom b) = Some xs" and "ri (nom b) = Some ys"
  shows "fold_err (annee_step hyp b ipa) ans (rc, ri) =
     Inr (rc(nom b \<mapsto> xs @ map (\<lambda>y. snd (projection_annee hyp b ipa y)) ans),
          ri(nom b \<mapsto> ys @ map (\<lambda>y. fst (projection_annee hyp b ipa y)) ans))"
  using assms
proof (induction ans arbitrary: rc ri xs ys)
  case Nil
  then show ?case by (simp add: map_upd_triv)
next
  case (Cons y ans)
  let ?cf = "snd (projection_annee hyp b ipa y)"
  let ?im = "fst (projection_annee hyp b ipa y)"
  have step: "annee_step hyp b ipa y (rc, ri) =
      Inr (rc(nom b \<mapsto> xs @ [?cf]), ri(nom b \<mapsto> ys @ [?im]))"
    using Cons.prems by (simp add: annee_step_def dict_append_def)
  have "fold_err (annee_step hyp b ipa) (y # ans) (rc, ri) =
      fold_err (annee_step hyp b ipa) ans (rc(nom b \<mapsto> xs @ [?cf]), ri(nom b \<mapsto> ys @ [?im]))"
    by (simp add: step)
  also have "\<dots> =
      Inr ((rc(nom b \<mapsto> xs @ [?cf]))(nom b \<mapsto> (xs @ [?cf]) @ map (\<lambda>y. snd (projection_annee hyp b ipa y)) ans),
           (ri(nom b \<mapsto> ys @ [?im]))(nom b \<mapsto> (ys @ [?im]) @ map (\<lambda>y. fst (projection_annee hyp b ipa y)) ans))"
    by (rule Cons.IH) simp_all
  also have "(rc(nom b \<mapsto> xs @ [?cf]))(nom b \<mapsto> (xs @ [?cf]) @ map (\<lambda>y. snd (projection_annee hyp b ipa y)) ans) =
      rc(nom b \<mapsto> xs @ map (\<lambda>y. snd (projection_annee hyp b ipa y)) (y # ans))"
    by simp
  also have "(ri(nom b \<mapsto> ys @ [?im]))(nom b \<mapsto> (ys @ [?im]) @ map (\<lambda>y. fst (projection_annee hyp b ipa y)) ans) =
      ri(nom b \<mapsto> ys @ map (\<lambda>y. fst (projection_annee hyp b ipa y)) (y # ans))"
    by simp
  finally show ?case .
qed

lemma fold_bien_step:
  assumes "\<forall>b \<in> set bs. rc (nom b) \<noteq> None \<and> ri (nom b) \<noteq> None"
  shows "fold_err (bien_step hyp ans) bs (rc, ri) =
     Inr (\<lambda>k. map_option (\<lambda>xs. xs @ concat (map (\<lambda>b. map (\<lambda>y. snd (projection_annee hyp b (interets_par_an (amort b)) y)) ans)
                                               (filter (\<lambda>b. nom b = k) bs))) (rc k),
          \<lambda>k. map_option (\<lambda>xs. xs @ concat (map (\<lambda>b. map (\<lambda>y. fst (projection_annee hyp b (interets_par_an (amort b)) y)) ans)
                                               (filter (\<lambda>b. nom b = k) bs))) (ri k))"
  using assms
proof (induction bs arbitrary: rc ri)
  case Nil
  show ?case by (simp add: option.map_ident)
next
  case (Cons b bs)
  obtain xs ys where xs: "rc (nom b) = Some xs" and ys: "ri (nom b) = Some ys"
    using Cons.prems by auto
  let ?cf = "\<lambda>b. map (\<lambda>y. snd (projection_annee hyp b (interets_par_an (amort b)) y)) ans"
  let ?im = "\<lambda>b. map (\<lambda>y. fst (projection_annee hyp b (interets_par_an (amort b)) y)) ans"
  let ?rc = "rc(nom b \<mapsto> xs @ ?cf b)"
  let ?ri = "ri(nom b \<mapsto> ys @ ?im b)"
  have step: "bien_step hyp ans b (rc, ri) = Inr (?rc, ?ri)"
    unfolding bien_step_def by (rule fold_annee_step [where rc = rc and ri = ri and b = b, OF xs ys])
  have dom: "\<forall>b' \<in> set bs. ?rc (nom b') \<noteq> None \<and> ?ri (nom b') \<noteq> None"
    using Cons.prems by simp
  have rest: "fold_err (bien_step hyp ans) bs (?rc, ?ri) =
      Inr (\<lambda>k. map_option (\<lambda>xs. xs @ concat (map ?cf (filter (\<lambda>b. nom b = k) bs))) (?rc k),
           \<lambda>k. map_option (\<lambda>xs. xs @ concat (map ?im (filter (\<lambda>b. nom b = k) bs))) (?ri k))"
    by (rule Cons.IH [OF dom])
  have c: "(\<lambda>k. map_option (\<lambda>xs. xs @ concat (map ?cf (filter (\<lambda>b. nom b = k) bs))) (?rc k)) =
      (\<lambda>k. map_option (\<lambda>xs. xs @ concat (map ?cf (filter (\<lambda>b. nom b = k) (b # bs)))) (rc k))"
    using xs by (auto simp: fun_eq_iff)
  have i: "(\<lambda>k. map_option (\<lambda>xs. xs @ concat (map ?im (filter (\<lambda>b. nom b = k) bs))) (?ri k)) =
      (\<lambda>k. map_option (\<lambda>xs. xs @ concat (map ?im (filter (\<lambda>b. nom b = k) (b # bs)))) (ri k))"
    using ys by (auto simp: fun_eq_iff)
  show ?case
    using step rest unfolding c i by simp
qed

lemma init_series:
  "map_of (map (\<lambda>b. (nom b, [])) bs) k = (if k \<in> set (map nom bs) then Some [] else None)"
  by (induction bs) auto

lemma sum_from_Inr:
  assumes "\<forall>x \<in> set xs. f x = Inr (g x)"
  shows "sum_from acc (map f xs) = Inr (acc + sum_list (map g xs))"
  using assms by (induction xs arbitrary: acc) (simp_all add: add.assoc)

lemma fold_err_update:
  fixes f g :: "nat \<Rightarrow> 'v"
  assumes step: "\<And>i tc ti. i < n \<Longrightarrow> stepf i (tc, ti) = Inr (tc[i := f i], ti[i := g i])"
    and len: "length tc = n" "length ti = n"
  shows "k \<le> n \<Longrightarrow>
    fold_err stepf [0..<k] (tc, ti) = Inr (map f [0..<k] @ drop k tc, map g [0..<k] @ drop k ti)"
proof (induction k)
  case 0
  show ?case by simp
next
  case (Suc k)
  then have k: "k < n" and IH: "fold_err stepf [0..<k] (tc, ti) =
      Inr (map f [0..<k] @ drop k tc, map g [0..<k] @ drop k ti)"
    by simp_all
  have upd: "(map h [0..<k] @ drop k xs)[k := h k] = map h [0..<Suc k] @ drop (Suc k) xs"
    if "length xs = n" for h :: "nat \<Rightarrow> 'v" and xs
  proof -
    have "drop k xs = xs ! k # drop (Suc k) xs"
      using k that by (simp add: Cons_nth_drop_Suc)
    then show ?thesis
      by (simp add: list_update_append)
  qed
  have "fold_err stepf [0..<Suc k] (tc, ti) =
      stepf k (map f [0..<k] @ drop k tc, map g [0..<k] @ drop k ti)"
    by (simp add: fold_err_append IH split: sum.splits)
  also have "\<dots> = Inr ((map f [0..<k] @ drop k tc)[k := f k], (map g [0..<k] @ drop k ti)[k := g k])"
    by (rule step [OF k])
  finally show ?case
    by (simp only: upd [OF len(1)] upd [OF len(2)])
qed

lemma find_filter_hd:
  "find P xs = (case filter P xs of [] \<Rightarrow> None | x # _ \<Rightarrow> Some x)"
  by (induction xs) simp_all

lemma length_serie [simp]:
  "length (serie_cashflow hyp b) = nat (duree_projection hyp)"
  "length (serie_imposable hyp b) = nat (duree_projection hyp)"
  by (simp_all add: serie_cashflow_def serie_imposable_def)

lemma lookup_merged:
  assumes b: "b \<in> set bs" and i: "i < n" and len: "\<And>b. length (f b) = n"
  shows "lookup_serie (\<lambda>k. if k \<in> set (map nom bs)
                           then Some (concat (map f (filter (\<lambda>b'. nom b' = k) bs))) else None)
           (nom b) i = Inr (f (premier_du_nom bs b) ! i)"
proof -
  have "b \<in> set (filter (\<lambda>b'. nom b' = nom b) bs)"
    using b by simp
  then obtain b0 rest where fl: "filter (\<lambda>b'. nom b' = nom b) bs = b0 # rest"
    by (cases "filter (\<lambda>b'. nom b' = nom b) bs") auto
  then have first: "premier_du_nom bs b = b0"
    by (simp add: premier_du_nom_def find_filter_hd)
  have "concat (map f (filter (\<lambda>b'. nom b' = nom b) bs)) ! i = f b0 ! i"
    using i len [of b0] by (simp add: fl nth_append)
  moreover have "i < length (concat (map f (filter (\<lambda>b'. nom b' = nom b) bs)))"
    using i len [of b0] by (simp add: fl)
  ultimately show ?thesis
    using b first by (simp add: lookup_serie_def)
qed

lemma filter_nom_distinct:
  assumes "distinct (map nom bs)" and "b \<in> set bs"
  shows "filter (\<lambda>b'. nom b' = nom b) bs = [b]"
  using assms
proof (induction bs)
  case Nil
  then show ?case by simp
next
  case (Cons a bs)
  show ?case
  proof (cases "a = b")
    case True
    then have "\<forall>b' \<in> set bs. nom b' \<noteq> nom b"
      using Cons.prems(1) by (auto simp: image_iff)
    then have "filter (\<lambda>b'. nom b' = nom b) bs = []"
      by (simp add: filter_empty_conv)
    then show ?thesis using True by simp
  next
    case False
    then have "b \<in> set bs" using Cons.prems(2) by simp
    then have "nom a \<noteq> nom b"
      using Cons.prems(1) by auto
    then show ?thesis
      using Cons.IH Cons.prems(1) \<open>b \<in> set bs\<close> by simp
  qed
qed

lemma premier_du_nom_distinct:
  assumes "distinct (map nom bs)" and "b \<in> set bs"
  shows "premier_du_nom bs b = b"
  using filter_nom_distinct [OF assms] by (simp add: premier_du_nom_def find_filter_hd)

lemma project_result:
  "\<exists>res. project_with_scenario bs hyp = Inr res \<and>
     annees res = [1..duree_projection hyp] \<and>
     resultats_cashflow res =
       (\<lambda>k. if k \<in> set (map nom bs)
            then Some (concat (map (serie_cashflow hyp) (filter (\<lambda>b. nom b = k) bs))) else None) \<and>
     resultats_imposable res =
       (\<lambda>k. if k \<in> set (map nom bs)
            then Some (concat (map (serie_imposable hyp) (filter (\<lambda>b. nom b = k) bs))) else None) \<and>
     total_cashflow res =
       map (\<lambda>i. sum_list (map (\<lambda>b. serie_cashflow hyp (premier_du_nom bs b) ! i) bs))
         [0..<nat (duree_projection hyp)] \<and>
     total_imposable res =
       map (\<lambda>i. sum_list (map (\<lambda>b. serie_imposable hyp (premier_du_nom bs b) ! i) bs))
         [0..<nat (duree_projection hyp)] \<and>
     impots res =
       map (\<lambda>i. max (total_imposable res ! i) 0 * tmi hyp) [0..<nat (duree_projection hyp)] \<and>
     ps_out res =
       map (\<lambda>i. max (total_imposable res ! i) 0 * ps hyp) [0..<nat (duree_projection hyp)] \<and>
     cf_after_tax res =
       map (\<lambda>i. total_cashflow res ! i - impots res ! i - ps_out res ! i)
         [0..<nat (duree_projection hyp)]"
proof -
  define n where "n = nat (duree_projection hyp)"
  define ans where "ans = [1..duree_projection hyp]"
  define rc0 :: series where "rc0 = map_of (map (\<lambda>b. (nom b, [])) bs)"
  define RC :: series where "RC = (\<lambda>k. if k \<in> set (map nom bs)
     then Some (concat (map (serie_cashflow hyp) (filter (\<lambda>b. nom b = k) bs))) else None)"
  define RI :: series where "RI = (\<lambda>k. if k \<in> set (map nom bs)
     then Some (concat (map (serie_imposable hyp) (filter (\<lambda>b. nom b = k) bs))) else None)"
  define TC where "TC = (\<lambda>i. sum_list (map (\<lambda>b. serie_cashflow hyp (premier_du_nom bs b) ! i) bs))"
  define TI where "TI = (\<lambda>i. sum_list (map (\<lambda>b. serie_imposable hyp (premier_du_nom bs b) ! i) bs))"
  have len: "length ans = n"
    by (simp add: ans_def n_def)
  have dom: "\<forall>b \<in> set bs. rc0 (nom b) \<noteq> None \<and> rc0 (nom b) \<noteq> None"
    by (simp add: rc0_def init_series)
  have sc: "serie_cashflow hyp =
      (\<lambda>b. map (\<lambda>y. snd (projection_annee hyp b (interets_par_an (amort b)) y)) ans)"
    by (simp add: fun_eq_iff serie_cashflow_def ans_def)
  have si: "serie_imposable hyp =
      (\<lambda>b. map (\<lambda>y. fst (projection_annee hyp b (interets_par_an (amort b)) y)) ans)"
    by (simp add: fun_eq_iff serie_imposable_def ans_def)
  have loops: "fold_err (bien_step hyp ans) bs (rc0, rc0) = Inr (RC, RI)"
    unfolding fold_bien_step [OF dom]
    by (simp add: RC_def RI_def rc0_def init_series sc si fun_eq_iff)
  have step: "agreg_step bs RC RI i (tc, ti) = Inr (tc[i := TC i], ti[i := TI i])"
    if "i < n" for i tc ti
  proof -
    have "\<forall>b \<in> set bs. lookup_serie RC (nom b) i = Inr (serie_cashflow hyp (premier_du_nom bs b) ! i)"
    proof
      fix b
      assume b: "b \<in> set bs"
      show "lookup_serie RC (nom b) i = Inr (serie_cashflow hyp (premier_du_nom bs b) ! i)"
        unfolding RC_def
        by (rule lookup_merged [where f = "serie_cashflow hyp" and n = n, OF b that]) (simp add: n_def)
    qed
    then have c: "sum_from 0 (map (\<lambda>b. lookup_serie RC (nom b) i) bs) = Inr (TC i)"
      using sum_from_Inr [of bs "\<lambda>b. lookup_serie RC (nom b) i"
          "\<lambda>b. serie_cashflow hyp (premier_du_nom bs b) ! i" 0]
      by (simp add: TC_def)
    have "\<forall>b \<in> set bs. lookup_serie RI (nom b) i = Inr (serie_imposable hyp (premier_du_nom bs b) ! i)"
    proof
      fix b
      assume b: "b \<in> set bs"
      show "lookup_serie RI (nom b) i = Inr (serie_imposable hyp (premier_du_nom bs b) ! i)"
        unfolding RI_def
        by (rule lookup_merged [where f = "serie_imposable hyp" and n = n, OF b that]) (simp add: n_def)
    qed
    then have t: "sum_from 0 (map (\<lambda>b. lookup_serie RI (nom b) i) bs) = Inr (TI i)"
      using sum_from_Inr [of bs "\<lambda>b. lookup_serie RI (nom b) i"
          "\<lambda>b. serie_imposable hyp (premier_du_nom bs b) ! i" 0]
      by (simp add: TI_def)
    show ?thesis
      by (simp add: agreg_step_def c t)
  qed
  have "fold_err (agreg_step bs RC RI) [0..<n] (replicate n 0, replicate n 0) =
      Inr (map TC [0..<n] @ drop n (replicate n 0), map TI [0..<n] @ drop n (replicate n 0))"
    by (rule fold_err_update [where n = n]) (simp_all add: step)
  then have agreg: "fold_err (agreg_step bs RC RI) [0..<n] (replicate n 0, replicate n 0) =
      Inr (map TC [0..<n], map TI [0..<n])"
    by simp
  have "project_with_scenario bs hyp =
      Inr \<lparr>annees = ans, resultats_cashflow = RC, resultats_imposable = RI,
           total_cashflow = map TC [0..<n], total_imposable = map TI [0..<n],
           impots = map (\<lambda>i. max (map TI [0..<n] ! i) 0 * tmi hyp) [0..<n],
           ps_out = map (\<lambda>i. max (map TI [0..<n] ! i) 0 * ps hyp) [0..<n],
           cf_after_tax = map (\<lambda>i. map TC [0..<n] ! i -
               map (\<lambda>i. max (map TI [0..<n] ! i) 0 * tmi hyp) [0..<n] ! i -
               map (\<lambda>i. max (map TI [0..<n] ! i) 0 * ps hyp) [0..<n] ! i) [0..<n]\<rparr>"
    unfolding project_with_scenario_def Let_def
    by (simp only: ans_def [symmetric] rc0_def [symmetric] len loops agreg sum.case fst_conv snd_conv)
  then show ?thesis
    by (simp add: ans_def RC_def RI_def TC_def TI_def n_def)
qed

lemma indexe_spec: "1 \<le> y \<Longrightarrow> indexe base idx y = spec_compound base idx y"
  by (simp add: indexe_def spec_compound_def power_int_def)

lemma interets_par_an_get:
  "dict_get (interets_par_an (amort b)) y 0 =
     sum_list (map interest (filter (\<lambda>row. year row = y) (amort_rows b)))"
proof (cases "amort b")
  case None
  then show ?thesis
    by (simp add: interets_par_an_def dict_get_def amort_rows_def)
next
  case (Some rows)
  have "filter (\<lambda>row. year row = y) rows = []" if "y \<notin> year ` set rows"
    using that by (auto simp: filter_empty_conv)
  then show ?thesis
    using Some by (auto simp: interets_par_an_def dict_get_def amort_rows_def)
qed

lemma projection_annee_spec:
  assumes "1 \<le> y"
  shows "projection_annee hyp b (interets_par_an (amort b)) y =
           (spec_taxable_income hyp b y, spec_cash_flow hyp b y)"
  using assms
  by (simp add: projection_annee_def Let_def indexe_spec interets_par_an_get
      spec_taxable_income_def spec_cash_flow_def spec_charges_total_def spec_annuity_def
      spec_interest_def)

lemma serie_nth:
  assumes "1 \<le> y" and "y \<le> duree_projection hyp"
  shows "serie_cashflow hyp b ! nat (y - 1) = spec_cash_flow hyp b y"
    and "serie_imposable hyp b ! nat (y - 1) = spec_taxable_income hyp b y"
proof -
  have i: "nat (y - 1) < length [1..duree_projection hyp]"
    using assms by simp
  have "[1..duree_projection hyp] ! nat (y - 1) = y"
    using assms by (simp add: nth_upto)
  then show "serie_cashflow hyp b ! nat (y - 1) = spec_cash_flow hyp b y"
    and "serie_imposable hyp b ! nat (y - 1) = spec_taxable_income hyp b y"
    using i assms(1)
    by (simp_all add: serie_cashflow_def serie_imposable_def projection_annee_spec
        del: length_upto)
qed

lemma make_bien_sans_credit:
  "make_bien nm 0 0 0 0 loy (charges_exemple taxe) = Inr (bien_sans_credit nm loy taxe)"
  by (simp add: make_bien_def mensualite_credit_def tableau_amortissement_def bien_sans_credit_def)

lemma upto_1_2: "[1..2] = [1, 2::int]"
  by (simp add: upto_rec1)

lemma serie_sans_credit:
  "serie_cashflow hyp_exemple (bien_sans_credit nm loy taxe) =
     [loy - taxe, loy * (1015 / 1000) - taxe * (1012 / 1000)]"
  "serie_imposable hyp_exemple (bien_sans_credit nm loy taxe) =
     [loy - taxe, loy * (1015 / 1000) - taxe * (1012 / 1000)]"
  by (simp_all add: serie_cashflow_def serie_imposable_def hyp_exemple_def bien_sans_credit_def
      charges_exemple_def projection_annee_def indexe_def dict_get_def upto_1_2 Let_def)

subsection \<open>C4: one property, one scenario\<close>

text \<open>
  Claim C4. For a property \<open>b\<close> and a scenario \<open>hyp\<close>, the projection of the portfolio
  \<open>[b]\<close> returns, under the name of \<open>b\<close>, a cash-flow series and a taxable-income series,
  each of length \<open>duree_projection hyp\<close>. For each year \<open>y = 1..horizon\<close> their values are
  those of section 4.2 of the specification: every base amount compounded at its own rate,
  \<open>base * (1 + idx) ^ (y - 1)\<close>; \<open>annuity = mensualite * 12\<close> and \<open>interest\<close> the sum of the
  interest of the table's rows of year \<open>y\<close> when \<open>y \<le> duree\<close>, both 0 otherwise;
  \<open>taxable income = rent - charges total - property tax - interest\<close>;
  \<open>cash flow = rent - charges total - property tax - annuity\<close>, the charges total being
  insurance + condo fees + loan insurance + other.
\<close>

theorem C4_property_projection:
  "\<exists>res cs ts.
     project_with_scenario [b] hyp = Inr res \<and>
     resultats_cashflow res (nom b) = Some cs \<and>
     resultats_imposable res (nom b) = Some ts \<and>
     length cs = nat (duree_projection hyp) \<and>
     length ts = nat (duree_projection hyp) \<and>
     (\<forall>y. 1 \<le> y \<and> y \<le> duree_projection hyp \<longrightarrow>
        ts ! nat (y - 1) = spec_taxable_income hyp b y \<and>
        cs ! nat (y - 1) = spec_cash_flow hyp b y)"
proof -
  obtain res where res: "project_with_scenario [b] hyp = Inr res"
    and rc: "resultats_cashflow res =
       (\<lambda>k. if k \<in> set (map nom [b])
            then Some (concat (map (serie_cashflow hyp) (filter (\<lambda>b'. nom b' = k) [b]))) else None)"
    and ri: "resultats_imposable res =
       (\<lambda>k. if k \<in> set (map nom [b])
            then Some (concat (map (serie_imposable hyp) (filter (\<lambda>b'. nom b' = k) [b]))) else None)"
    using project_result [of "[b]" hyp] by blast
  have "resultats_cashflow res (nom b) = Some (serie_cashflow hyp b)"
    and "resultats_imposable res (nom b) = Some (serie_imposable hyp b)"
    by (simp_all add: rc ri)
  moreover have "\<forall>y. 1 \<le> y \<and> y \<le> duree_projection hyp \<longrightarrow>
        serie_imposable hyp b ! nat (y - 1) = spec_taxable_income hyp b y \<and>
        serie_cashflow hyp b ! nat (y - 1) = spec_cash_flow hyp b y"
    using serie_nth by blast
  ultimately show ?thesis
    using res length_serie by blast
qed

text \<open>A property let at 12000 a year without loan or charges, second year of the example
  scenario (rents indexed at 1.5 %).\<close>

theorem C4_property_projection_witness:
  "\<exists>res cs ts.
     project_with_scenario [bien_sans_credit ''T2'' 12000 0] hyp_exemple = Inr res \<and>
     resultats_cashflow res ''T2'' = Some cs \<and>
     resultats_imposable res ''T2'' = Some ts \<and>
     length cs = 2 \<and> length ts = 2 \<and>
     (1::int) \<le> 2 \<and> 2 \<le> duree_projection hyp_exemple \<and>
     ts ! 1 = 12180 \<and> cs ! 1 = 12180"
proof -
  obtain res cs ts where "project_with_scenario [bien_sans_credit ''T2'' 12000 0] hyp_exemple = Inr res"
    and "resultats_cashflow res (nom (bien_sans_credit ''T2'' 12000 0)) = Some cs"
    and "resultats_imposable res (nom (bien_sans_credit ''T2'' 12000 0)) = Some ts"
    and "length cs = nat (duree_projection hyp_exemple)"
    and "length ts = nat (duree_projection hyp_exemple)"
    and y: "\<forall>y. 1 \<le> y \<and> y \<le> duree_projection hyp_exemple \<longrightarrow>
        ts ! nat (y - 1) = spec_taxable_income hyp_exemple (bien_sans_credit ''T2'' 12000 0) y \<and>
        cs ! nat (y - 1) = spec_cash_flow hyp_exemple (bien_sans_credit ''T2'' 12000 0) y"
    using C4_property_projection [of "bien_sans_credit ''T2'' 12000 0" hyp_exemple] by blast
  moreover have h: "duree_projection hyp_exemple = 2"
    by (simp add: hyp_exemple_def)
  moreover have "nom (bien_sans_credit ''T2'' 12000 0) = ''T2''"
    by (simp add: bien_sans_credit_def)
  moreover have "spec_taxable_income hyp_exemple (bien_sans_credit ''T2'' 12000 0) 2 = 12180"
    and "spec_cash_flow hyp_exemple (bien_sans_credit ''T2'' 12000 0) 2 = 12180"
    by (simp_all add: spec_taxable_income_def spec_cash_flow_def spec_charges_total_def
        spec_compound_def spec_interest_def spec_annuity_def hyp_exemple_def
        bien_sans_credit_def charges_exemple_def dict_get_def amort_rows_def)
  moreover have "ts ! nat (2 - 1) = spec_taxable_income hyp_exemple (bien_sans_credit ''T2'' 12000 0) 2 \<and>
      cs ! nat (2 - 1) = spec_cash_flow hyp_exemple (bien_sans_credit ''T2'' 12000 0) 2"
    using y [rule_format, of 2] h by simp
  ultimately show ?thesis
    by auto
qed

subsection \<open>C5: tax and social levy\<close>

text \<open>
  Claim C5. The projection of any portfolio returns, and for every year index \<open>i\<close> of the
  horizon: \<open>impots = max (total_imposable, 0) * tmi\<close>, \<open>ps = max (total_imposable, 0) * ps\<close>
  and \<open>cf_after_tax = total_cashflow - impots - ps\<close>; when the aggregate taxable income
  of the year is negative, both the tax and the levy are exactly 0.
\<close>

theorem C5_tax_and_levy:
  "\<exists>res.
     project_with_scenario bs hyp = Inr res \<and>
     length (total_imposable res) = nat (duree_projection hyp) \<and>
     length (impots res) = nat (duree_projection hyp) \<and>
     length (ps_out res) = nat (duree_projection hyp) \<and>
     length (cf_after_tax res) = nat (duree_projection hyp) \<and>
     (\<forall>i < nat (duree_projection hyp).
        impots res ! i = max (total_imposable res ! i) 0 * tmi hyp \<and>
        ps_out res ! i = max (total_imposable res ! i) 0 * ps hyp \<and>
        cf_after_tax res ! i = total_cashflow res ! i - impots res ! i - ps_out res ! i \<and>
        (total_imposable res ! i < 0 \<longrightarrow> impots res ! i = 0 \<and> ps_out res ! i = 0))"
proof -
  obtain res where res: "project_with_scenario bs hyp = Inr res"
    and ti: "total_imposable res =
       map (\<lambda>i. sum_list (map (\<lambda>b. serie_imposable hyp (premier_du_nom bs b) ! i) bs))
         [0..<nat (duree_projection hyp)]"
    and im: "impots res =
       map (\<lambda>i. max (total_imposable res ! i) 0 * tmi hyp) [0..<nat (duree_projection hyp)]"
    and pl: "ps_out res =
       map (\<lambda>i. max (total_imposable res ! i) 0 * ps hyp) [0..<nat (duree_projection hyp)]"
    and ca: "cf_after_tax res =
       map (\<lambda>i. total_cashflow res ! i - impots res ! i - ps_out res ! i)
         [0..<nat (duree_projection hyp)]"
    using project_result [of bs hyp] by blast
  have len: "length (total_imposable res) = nat (duree_projection hyp)"
    "length (impots res) = nat (duree_projection hyp)"
    "length (ps_out res) = nat (duree_projection hyp)"
    "length (cf_after_tax res) = nat (duree_projection hyp)"
    by (simp_all add: ti im pl ca)
  have vals: "impots res ! i = max (total_imposable res ! i) 0 * tmi hyp \<and>
        ps_out res ! i = max (total_imposable res ! i) 0 * ps hyp \<and>
        cf_after_tax res ! i = total_cashflow res ! i - impots res ! i - ps_out res ! i \<and>
        (total_imposable res ! i < 0 \<longrightarrow> impots res ! i = 0 \<and> ps_out res ! i = 0)"
    if "i < nat (duree_projection hyp)" for i
  proof -
    have a: "impots res ! i = max (total_imposable res ! i) 0 * tmi hyp"
      using that by (subst im) simp
    have b: "ps_out res ! i = max (total_imposable res ! i) 0 * ps hyp"
      using that by (subst pl) simp
    have c: "cf_after_tax res ! i = total_cashflow res ! i - impots res ! i - ps_out res ! i"
      using that by (subst ca) simp
    show ?thesis
      using a b c by simp
  qed
  show ?thesis
    using res len vals by blast
qed

text \<open>A rent of 100 against a property tax of 500: the taxable income of the first year
  is negative, tax and levy are 0.\<close>

theorem C5_tax_and_levy_witness:
  "\<exists>res.
     project_with_scenario [bien_sans_credit ''T2'' 100 500] hyp_exemple = Inr res \<and>
     0 < nat (duree_projection hyp_exemple) \<and>
     total_imposable res ! 0 < 0 \<and>
     impots res ! 0 = 0 \<and> ps_out res ! 0 = 0 \<and>
     cf_after_tax res ! 0 = total_cashflow res ! 0"
proof -
  have h: "nat (duree_projection hyp_exemple) = 2"
    by (simp add: hyp_exemple_def)
  obtain res where res: "project_with_scenario [bien_sans_credit ''T2'' 100 500] hyp_exemple = Inr res"
    and tax: "\<forall>i < nat (duree_projection hyp_exemple).
        impots res ! i = max (total_imposable res ! i) 0 * tmi hyp_exemple \<and>
        ps_out res ! i = max (total_imposable res ! i) 0 * ps hyp_exemple \<and>
        cf_after_tax res ! i = total_cashflow res ! i - impots res ! i - ps_out res ! i \<and>
        (total_imposable res ! i < 0 \<longrightarrow> impots res ! i = 0 \<and> ps_out res ! i = 0)"
    using C5_tax_and_levy [of "[bien_sans_credit ''T2'' 100 500]" hyp_exemple] by blast
  obtain res' where res': "project_with_scenario [bien_sans_credit ''T2'' 100 500] hyp_exemple = Inr res'"
    and ti: "total_imposable res' =
       map (\<lambda>i. sum_list (map (\<lambda>b. serie_imposable hyp_exemple
                 (premier_du_nom [bien_sans_credit ''T2'' 100 500] b) ! i)
               [bien_sans_credit ''T2'' 100 500]))
         [0..<nat (duree_projection hyp_exemple)]"
    using project_result [of "[bien_sans_credit ''T2'' 100 500]" hyp_exemple] by blast
  have "res' = res"
    using res res' by simp
  then have "total_imposable res ! 0 = - 400"
    using ti by (simp add: h premier_du_nom_def serie_sans_credit upt_rec)
  then have neg: "total_imposable res ! 0 < 0"
    by simp
  have "0 < nat (duree_projection hyp_exemple)"
    by (simp add: h)
  then have "impots res ! 0 = 0 \<and> ps_out res ! 0 = 0 \<and>
      cf_after_tax res ! 0 = total_cashflow res ! 0 - impots res ! 0 - ps_out res ! 0"
    using tax neg by blast
  then show ?thesis
    using res neg h by auto
qed

subsection \<open>C6: aggregation\<close>

text \<open>
  Claim C6 at two properties with the same name: \<^verbatim>\<open>add_bien\<close> twice with the name T2,
  rents of 100 and 200, no charges, no loan, under the example scenario. The projection
  returns; both properties' values are stored, one after the other, under the one key; and
  line 333 reads the first property's value once per property: the total cash flow of the
  first year is 200, the first rent counted twice and the second never read, while the two
  properties' cash flows add up to 300. The total taxable income is 200 as well, and the
  tax of the first year is computed on it, 60 instead of 90.
\<close>

theorem C6_same_name_counted_twice:
  "\<exists>res. project_with_scenario [bien_sans_credit ''T2'' 100 0, bien_sans_credit ''T2'' 200 0]
            hyp_exemple = Inr res \<and>
     resultats_cashflow res ''T2'' = Some [100, 203 / 2, 200, 203] \<and>
     total_cashflow res ! 0 = 200 \<and>
     serie_cashflow hyp_exemple (bien_sans_credit ''T2'' 100 0) ! 0 +
     serie_cashflow hyp_exemple (bien_sans_credit ''T2'' 200 0) ! 0 = 300 \<and>
     total_imposable res ! 0 = 200 \<and>
     impots res ! 0 = 60"
proof -
  have h: "nat (duree_projection hyp_exemple) = 2"
    by (simp add: hyp_exemple_def)
  have t: "tmi hyp_exemple = 3 / 10"
    by (simp add: hyp_exemple_def)
  have n: "nom (bien_sans_credit ''T2'' 100 0) = ''T2''"
    "nom (bien_sans_credit ''T2'' 200 0) = ''T2''"
    by (simp_all add: bien_sans_credit_def)
  have p: "premier_du_nom [bien_sans_credit ''T2'' 100 0, bien_sans_credit ''T2'' 200 0] b =
      bien_sans_credit ''T2'' 100 0"
    if "b = bien_sans_credit ''T2'' 100 0 \<or> b = bien_sans_credit ''T2'' 200 0" for b
    using that by (auto simp: premier_du_nom_def bien_sans_credit_def)
  obtain res where res: "project_with_scenario
        [bien_sans_credit ''T2'' 100 0, bien_sans_credit ''T2'' 200 0] hyp_exemple = Inr res"
    and rc: "resultats_cashflow res =
       (\<lambda>k. if k \<in> set (map nom [bien_sans_credit ''T2'' 100 0, bien_sans_credit ''T2'' 200 0])
            then Some (concat (map (serie_cashflow hyp_exemple)
                   (filter (\<lambda>b. nom b = k)
                      [bien_sans_credit ''T2'' 100 0, bien_sans_credit ''T2'' 200 0])))
            else None)"
    and tc: "total_cashflow res =
       map (\<lambda>i. sum_list (map (\<lambda>b. serie_cashflow hyp_exemple
                 (premier_du_nom [bien_sans_credit ''T2'' 100 0, bien_sans_credit ''T2'' 200 0] b) ! i)
               [bien_sans_credit ''T2'' 100 0, bien_sans_credit ''T2'' 200 0]))
         [0..<nat (duree_projection hyp_exemple)]"
    and ti: "total_imposable res =
       map (\<lambda>i. sum_list (map (\<lambda>b. serie_imposable hyp_exemple
                 (premier_du_nom [bien_sans_credit ''T2'' 100 0, bien_sans_credit ''T2'' 200 0] b) ! i)
               [bien_sans_credit ''T2'' 100 0, bien_sans_credit ''T2'' 200 0]))
         [0..<nat (duree_projection hyp_exemple)]"
    and im: "impots res =
       map (\<lambda>i. max (total_imposable res ! i) 0 * tmi hyp_exemple)
         [0..<nat (duree_projection hyp_exemple)]"
    using project_result
      [of "[bien_sans_credit ''T2'' 100 0, bien_sans_credit ''T2'' 200 0]" hyp_exemple]
    by blast
  have stored: "resultats_cashflow res ''T2'' = Some [100, 203 / 2, 200, 203]"
    by (simp add: rc n serie_sans_credit)
  have total: "total_cashflow res ! 0 = 200"
    by (simp add: tc h p serie_sans_credit upt_rec)
  have own: "serie_cashflow hyp_exemple (bien_sans_credit ''T2'' 100 0) ! 0 +
      serie_cashflow hyp_exemple (bien_sans_credit ''T2'' 200 0) ! 0 = 300"
    by (simp add: serie_sans_credit)
  have taxable: "total_imposable res ! 0 = 200"
    by (simp add: ti h p serie_sans_credit upt_rec)
  have "impots res ! 0 = max (total_imposable res ! 0) 0 * tmi hyp_exemple"
    by (subst im) (simp add: h upt_rec)
  then have tax: "impots res ! 0 = 60"
    by (simp add: taxable t)
  show ?thesis
    using res stored total own taxable tax by blast
qed

subsection \<open>C7: monotonic indexation\<close>

text \<open>
  Claim C7, as amended: the base amount is positive. For a base \<open>> 0\<close>, an indexation rate
  \<open>> 0\<close> and years \<open>1 \<le> y1 < y2\<close>, the compounded value of year \<open>y2\<close> is strictly greater
  than that of year \<open>y1\<close>.
\<close>

theorem C7_indexation_monotone:
  assumes "0 < base" and "0 < idx" and "1 \<le> y1" and "y1 < y2"
  shows "indexe base idx y1 < indexe base idx y2"
proof -
  have "nat (y1 - 1) < nat (y2 - 1)"
    using assms(3,4) by simp
  then have "(1 + idx) ^ nat (y1 - 1) < (1 + idx) ^ nat (y2 - 1)"
    using assms(2) by (intro power_strict_increasing) simp_all
  then show ?thesis
    using assms(1,3,4) by (simp add: indexe_def power_int_def)
qed

text \<open>A base of 1000 indexed at 1 %, years 1 and 2.\<close>

theorem C7_indexation_monotone_witness:
  "(0::real) < 1000 \<and> (0::real) < 1 / 100 \<and> (1::int) \<le> 1 \<and> (1::int) < 2 \<and>
   indexe 1000 (1 / 100) 1 < indexe 1000 (1 / 100) 2"
  using C7_indexation_monotone [of 1000 "1 / 100" 1 2] by simp

text \<open>
  Claim C7 as stated (every base amount) fails for a base of 0, the value of an empty
  charge field: both years give 0.
\<close>

theorem C7_zero_base_not_strict:
  "(0::real) < 1 / 100 \<and> (1::int) < 2 \<and> \<not> indexe 0 (1 / 100) 1 < indexe 0 (1 / 100) 2"
  by (simp add: indexe_def)

subsection \<open>C10: property names are the keys\<close>

text \<open>
  Claim C10. The per-property series are stored under the property's name: the list under
  a name is the concatenation, in list order, of the series of all the properties that bear
  it. For a portfolio of two properties with the same name it is the first series followed
  by the second, of length twice the horizon, and each total is twice the value of the
  first property, the second being ignored. In general each property contributes to the
  totals the value of the first property that bears its name. When the names are pairwise
  distinct, the totals are the sums of the properties' own values.
\<close>

theorem C10_names_as_keys:
  "\<exists>res.
     project_with_scenario bs hyp = Inr res \<and>
     (\<forall>b \<in> set bs.
        resultats_cashflow res (nom b) =
          Some (concat (map (serie_cashflow hyp) (filter (\<lambda>b'. nom b' = nom b) bs))) \<and>
        resultats_imposable res (nom b) =
          Some (concat (map (serie_imposable hyp) (filter (\<lambda>b'. nom b' = nom b) bs)))) \<and>
     (\<forall>b1 b2. bs = [b1, b2] \<and> nom b1 = nom b2 \<longrightarrow>
        resultats_cashflow res (nom b1) = Some (serie_cashflow hyp b1 @ serie_cashflow hyp b2) \<and>
        length (serie_cashflow hyp b1 @ serie_cashflow hyp b2) = 2 * nat (duree_projection hyp) \<and>
        (\<forall>i < nat (duree_projection hyp).
           total_cashflow res ! i = serie_cashflow hyp b1 ! i + serie_cashflow hyp b1 ! i \<and>
           total_imposable res ! i = serie_imposable hyp b1 ! i + serie_imposable hyp b1 ! i)) \<and>
     (\<forall>i < nat (duree_projection hyp).
        total_cashflow res ! i =
          sum_list (map (\<lambda>b. serie_cashflow hyp (premier_du_nom bs b) ! i) bs) \<and>
        total_imposable res ! i =
          sum_list (map (\<lambda>b. serie_imposable hyp (premier_du_nom bs b) ! i) bs)) \<and>
     (distinct (map nom bs) \<longrightarrow>
        (\<forall>i < nat (duree_projection hyp).
           total_cashflow res ! i = sum_list (map (\<lambda>b. serie_cashflow hyp b ! i) bs) \<and>
           total_imposable res ! i = sum_list (map (\<lambda>b. serie_imposable hyp b ! i) bs)))"
proof -
  obtain res where res: "project_with_scenario bs hyp = Inr res"
    and rc: "resultats_cashflow res =
       (\<lambda>k. if k \<in> set (map nom bs)
            then Some (concat (map (serie_cashflow hyp) (filter (\<lambda>b. nom b = k) bs))) else None)"
    and ri: "resultats_imposable res =
       (\<lambda>k. if k \<in> set (map nom bs)
            then Some (concat (map (serie_imposable hyp) (filter (\<lambda>b. nom b = k) bs))) else None)"
    and tc: "total_cashflow res =
       map (\<lambda>i. sum_list (map (\<lambda>b. serie_cashflow hyp (premier_du_nom bs b) ! i) bs))
         [0..<nat (duree_projection hyp)]"
    and ti: "total_imposable res =
       map (\<lambda>i. sum_list (map (\<lambda>b. serie_imposable hyp (premier_du_nom bs b) ! i) bs))
         [0..<nat (duree_projection hyp)]"
    using project_result [of bs hyp] by blast
  have keys: "\<forall>b \<in> set bs.
        resultats_cashflow res (nom b) =
          Some (concat (map (serie_cashflow hyp) (filter (\<lambda>b'. nom b' = nom b) bs))) \<and>
        resultats_imposable res (nom b) =
          Some (concat (map (serie_imposable hyp) (filter (\<lambda>b'. nom b' = nom b) bs)))"
    by (simp add: rc ri)
  have tot: "\<forall>i < nat (duree_projection hyp).
        total_cashflow res ! i =
          sum_list (map (\<lambda>b. serie_cashflow hyp (premier_du_nom bs b) ! i) bs) \<and>
        total_imposable res ! i =
          sum_list (map (\<lambda>b. serie_imposable hyp (premier_du_nom bs b) ! i) bs)"
    by (simp add: tc ti)
  have two: "\<forall>b1 b2. bs = [b1, b2] \<and> nom b1 = nom b2 \<longrightarrow>
        resultats_cashflow res (nom b1) = Some (serie_cashflow hyp b1 @ serie_cashflow hyp b2) \<and>
        length (serie_cashflow hyp b1 @ serie_cashflow hyp b2) = 2 * nat (duree_projection hyp) \<and>
        (\<forall>i < nat (duree_projection hyp).
           total_cashflow res ! i = serie_cashflow hyp b1 ! i + serie_cashflow hyp b1 ! i \<and>
           total_imposable res ! i = serie_imposable hyp b1 ! i + serie_imposable hyp b1 ! i)"
  proof (intro allI impI)
    fix b1 b2
    assume a: "bs = [b1, b2] \<and> nom b1 = nom b2"
    then have p: "premier_du_nom bs b1 = b1" "premier_du_nom bs b2 = b1"
      by (simp_all add: premier_du_nom_def)
    show "resultats_cashflow res (nom b1) = Some (serie_cashflow hyp b1 @ serie_cashflow hyp b2) \<and>
        length (serie_cashflow hyp b1 @ serie_cashflow hyp b2) = 2 * nat (duree_projection hyp) \<and>
        (\<forall>i < nat (duree_projection hyp).
           total_cashflow res ! i = serie_cashflow hyp b1 ! i + serie_cashflow hyp b1 ! i \<and>
           total_imposable res ! i = serie_imposable hyp b1 ! i + serie_imposable hyp b1 ! i)"
      using a p tot by (simp add: rc)
  qed
  have dist: "distinct (map nom bs) \<longrightarrow>
        (\<forall>i < nat (duree_projection hyp).
           total_cashflow res ! i = sum_list (map (\<lambda>b. serie_cashflow hyp b ! i) bs) \<and>
           total_imposable res ! i = sum_list (map (\<lambda>b. serie_imposable hyp b ! i) bs))"
  proof
    assume d: "distinct (map nom bs)"
    have c: "map (\<lambda>b. serie_cashflow hyp (premier_du_nom bs b) ! i) bs =
        map (\<lambda>b. serie_cashflow hyp b ! i) bs" for i
      by (rule map_cong) (simp_all add: premier_du_nom_distinct [OF d])
    have t: "map (\<lambda>b. serie_imposable hyp (premier_du_nom bs b) ! i) bs =
        map (\<lambda>b. serie_imposable hyp b ! i) bs" for i
      by (rule map_cong) (simp_all add: premier_du_nom_distinct [OF d])
    show "\<forall>i < nat (duree_projection hyp).
           total_cashflow res ! i = sum_list (map (\<lambda>b. serie_cashflow hyp b ! i) bs) \<and>
           total_imposable res ! i = sum_list (map (\<lambda>b. serie_imposable hyp b ! i) bs)"
      using tot by (simp add: c t)
  qed
  show ?thesis
    using res keys two tot dist by blast
qed

text \<open>Rents of 100 and 200 under one name, then under two names.\<close>

theorem C10_names_as_keys_witness:
  "(\<exists>res. project_with_scenario [bien_sans_credit ''T2'' 100 0, bien_sans_credit ''T2'' 200 0]
            hyp_exemple = Inr res \<and>
      nom (bien_sans_credit ''T2'' 100 0) = nom (bien_sans_credit ''T2'' 200 0) \<and>
      resultats_cashflow res ''T2'' = Some [100, 203 / 2, 200, 203] \<and>
      0 < nat (duree_projection hyp_exemple) \<and>
      total_cashflow res ! 0 = 200) \<and>
   (\<exists>res. project_with_scenario [bien_sans_credit ''T2'' 100 0, bien_sans_credit ''T3'' 200 0]
            hyp_exemple = Inr res \<and>
      distinct (map nom [bien_sans_credit ''T2'' 100 0, bien_sans_credit ''T3'' 200 0]) \<and>
      total_cashflow res ! 0 = 300)"
proof -
  have h: "nat (duree_projection hyp_exemple) = 2"
    by (simp add: hyp_exemple_def)
  have n: "nom (bien_sans_credit ''T2'' 100 0) = ''T2''"
    "nom (bien_sans_credit ''T2'' 200 0) = ''T2''"
    by (simp_all add: bien_sans_credit_def)
  obtain res where res: "project_with_scenario
        [bien_sans_credit ''T2'' 100 0, bien_sans_credit ''T2'' 200 0] hyp_exemple = Inr res"
    and two: "\<forall>b1 b2. [bien_sans_credit ''T2'' 100 0, bien_sans_credit ''T2'' 200 0] = [b1, b2] \<and>
          nom b1 = nom b2 \<longrightarrow>
        resultats_cashflow res (nom b1) =
          Some (serie_cashflow hyp_exemple b1 @ serie_cashflow hyp_exemple b2) \<and>
        length (serie_cashflow hyp_exemple b1 @ serie_cashflow hyp_exemple b2) =
          2 * nat (duree_projection hyp_exemple) \<and>
        (\<forall>i < nat (duree_projection hyp_exemple).
           total_cashflow res ! i =
             serie_cashflow hyp_exemple b1 ! i + serie_cashflow hyp_exemple b1 ! i \<and>
           total_imposable res ! i =
             serie_imposable hyp_exemple b1 ! i + serie_imposable hyp_exemple b1 ! i)"
    using C10_names_as_keys
      [of "[bien_sans_credit ''T2'' 100 0, bien_sans_credit ''T2'' 200 0]" hyp_exemple]
    by blast
  have "resultats_cashflow res (nom (bien_sans_credit ''T2'' 100 0)) =
          Some (serie_cashflow hyp_exemple (bien_sans_credit ''T2'' 100 0) @
                serie_cashflow hyp_exemple (bien_sans_credit ''T2'' 200 0)) \<and>
        (\<forall>i < nat (duree_projection hyp_exemple).
           total_cashflow res ! i =
             serie_cashflow hyp_exemple (bien_sans_credit ''T2'' 100 0) ! i +
             serie_cashflow hyp_exemple (bien_sans_credit ''T2'' 100 0) ! i)"
    using two n by simp
  then have "resultats_cashflow res ''T2'' = Some [100, 203 / 2, 200, 203] \<and>
      total_cashflow res ! 0 = 200"
    by (simp add: n h serie_sans_credit)
  then have first: "\<exists>res. project_with_scenario
        [bien_sans_credit ''T2'' 100 0, bien_sans_credit ''T2'' 200 0] hyp_exemple = Inr res \<and>
      nom (bien_sans_credit ''T2'' 100 0) = nom (bien_sans_credit ''T2'' 200 0) \<and>
      resultats_cashflow res ''T2'' = Some [100, 203 / 2, 200, 203] \<and>
      0 < nat (duree_projection hyp_exemple) \<and>
      total_cashflow res ! 0 = 200"
    using res n h by auto
  have d: "distinct (map nom [bien_sans_credit ''T2'' 100 0, bien_sans_credit ''T3'' 200 0])"
    by (simp add: bien_sans_credit_def)
  obtain res2 where res2: "project_with_scenario
        [bien_sans_credit ''T2'' 100 0, bien_sans_credit ''T3'' 200 0] hyp_exemple = Inr res2"
    and dist: "distinct (map nom [bien_sans_credit ''T2'' 100 0, bien_sans_credit ''T3'' 200 0]) \<longrightarrow>
        (\<forall>i < nat (duree_projection hyp_exemple).
           total_cashflow res2 ! i =
             sum_list (map (\<lambda>b. serie_cashflow hyp_exemple b ! i)
               [bien_sans_credit ''T2'' 100 0, bien_sans_credit ''T3'' 200 0]) \<and>
           total_imposable res2 ! i =
             sum_list (map (\<lambda>b. serie_imposable hyp_exemple b ! i)
               [bien_sans_credit ''T2'' 100 0, bien_sans_credit ''T3'' 200 0]))"
    using C10_names_as_keys
      [of "[bien_sans_credit ''T2'' 100 0, bien_sans_credit ''T3'' 200 0]" hyp_exemple]
    by blast
  have "total_cashflow res2 ! 0 = 300"
    using dist d by (simp add: h serie_sans_credit)
  then have second: "\<exists>res. project_with_scenario
        [bien_sans_credit ''T2'' 100 0, bien_sans_credit ''T3'' 200 0] hyp_exemple = Inr res \<and>
      distinct (map nom [bien_sans_credit ''T2'' 100 0, bien_sans_credit ''T3'' 200 0]) \<and>
      total_cashflow res ! 0 = 300"
    using res2 d by blast
  show ?thesis
    using first second by blast
qed

end
